theory Spec2Isabelle
  imports Complex_Main "HOL-Library.Word"
begin

section \<open>JavaScript values\<close>

text \<open>
  The services handle values that come out of \<^verbatim>\<open>JSON.parse\<close> and out of HTTP response
  bodies, so the model has one type of JavaScript values. A number is an IEEE double: the
  finite ones are rationals (the two zeros \<^verbatim>\<open>0\<close> and \<^verbatim>\<open>-0\<close> are one value here: they are
  \<^verbatim>\<open>===\<close> and both falsy), and the code only ever tests a number for truthiness or compares
  it with \<^verbatim>\<open>0\<close>. A string is the list of its code units, one \<open>char\<close> for each;
  \<^verbatim>\<open>length\<close> and \<^verbatim>\<open>substring\<close> count code units. An object is the list of its own
  properties, each name once, as \<^verbatim>\<open>JSON.parse\<close> builds it.
\<close>

datatype number = Finite rat | PosInfinity | NegInfinity | NaN

datatype js =
    Undefined
  | Null
  | Bool bool
  | Num number
  | Str string
  | Arr "js list"
  | Obj "(string \<times> js) list"

text \<open>
  What can be thrown: the rejection of an axios call (\<^verbatim>\<open>error.code\<close>, \<^verbatim>\<open>error.message\<close>,
  \<^verbatim>\<open>error.response\<close> as status and body), \<^verbatim>\<open>new Error(message)\<close>, the engine's
  \<^verbatim>\<open>TypeError\<close> (a property read on \<^verbatim>\<open>null\<close> or \<^verbatim>\<open>undefined\<close>, a call of something
  that is no function), the \<^verbatim>\<open>SyntaxError\<close> of \<^verbatim>\<open>JSON.parse\<close>, and the object literal
  \<^verbatim>\<open>{ status, message }\<close> that the service throws itself.
\<close>

datatype error =
    AxiosError "string option" string "(nat \<times> js) option"
  | Error string
  | TypeError
  | SyntaxError
  | Thrown nat js

text \<open>\<^verbatim>\<open>error.code\<close>: only a rejected request carries one.\<close>

fun code :: "error \<Rightarrow> js" where
  "code (AxiosError (Some c) m r) = Str c"
| "code e = Undefined"

text \<open>Sequencing of steps that may throw, and \<^verbatim>\<open>try { body } catch (error) { handler }\<close>.\<close>

definition andThen :: "error + 'a \<Rightarrow> ('a \<Rightarrow> error + 'b) \<Rightarrow> error + 'b" where
  "andThen m f = (case m of Inl e \<Rightarrow> Inl e | Inr v \<Rightarrow> f v)"

definition try_catch :: "error + 'a \<Rightarrow> (error \<Rightarrow> error + 'a) \<Rightarrow> error + 'a" where
  "try_catch body handler = (case body of Inl e \<Rightarrow> handler e | Inr v \<Rightarrow> Inr v)"

fun mapE :: "('a \<Rightarrow> error + 'b) \<Rightarrow> 'a list \<Rightarrow> error + 'b list" where
  "mapE f [] = Inr []"
| "mapE f (x # xs) = andThen (f x) (\<lambda>y. andThen (mapE f xs) (\<lambda>ys. Inr (y # ys)))"

text \<open>Truthiness, as \<^verbatim>\<open>||\<close>, \<^verbatim>\<open>&&\<close>, \<^verbatim>\<open>? :\<close> and \<^verbatim>\<open>if\<close> test it.\<close>

fun truthy :: "js \<Rightarrow> bool" where
  "truthy Undefined = False"
| "truthy Null = False"
| "truthy (Bool b) = b"
| "truthy (Num n) = (n \<noteq> Finite 0 \<and> n \<noteq> NaN)"
| "truthy (Str s) = (s \<noteq> [])"
| "truthy (Arr xs) = True"
| "truthy (Obj kvs) = True"

text \<open>\<^verbatim>\<open>a || b\<close>\<close>

definition orElse :: "js \<Rightarrow> js \<Rightarrow> js" where
  "orElse a b = (if truthy a then a else b)"

text \<open>
  A property read \<^verbatim>\<open>v.k\<close>. The names the code reads (\<^verbatim>\<open>title\<close>, \<^verbatim>\<open>error\<close>,
  \<^verbatim>\<open>volumeInfo\<close>, ...) are own properties of an object or nothing: no prototype of a
  parsed value has them. On \<^verbatim>\<open>null\<close> and \<^verbatim>\<open>undefined\<close> the read throws.
\<close>

fun field :: "js \<Rightarrow> string \<Rightarrow> js" where
  "field (Obj kvs) k = (case map_of kvs k of Some v \<Rightarrow> v | None \<Rightarrow> Undefined)"
| "field v k = Undefined"

definition readProp :: "js \<Rightarrow> string \<Rightarrow> error + js" where
  "readProp v k = (if v = Undefined \<or> v = Null then Inl TypeError else Inr (field v k))"

text \<open>\<^verbatim>\<open>v?.k\<close>\<close>

definition optionalProp :: "js \<Rightarrow> string \<Rightarrow> js" where
  "optionalProp v k = (if v = Undefined \<or> v = Null then Undefined else field v k)"

text \<open>\<^verbatim>\<open>v[0]\<close>\<close>

fun first :: "js \<Rightarrow> error + js" where
  "first Undefined = Inl TypeError"
| "first Null = Inl TypeError"
| "first (Arr xs) = Inr (case xs of [] \<Rightarrow> Undefined | x # rest \<Rightarrow> x)"
| "first (Str s) = Inr (case s of [] \<Rightarrow> Undefined | c # rest \<Rightarrow> Str [c])"
| "first (Obj kvs) = Inr (field (Obj kvs) ''0'')"
| "first v = Inr Undefined"

text \<open>\<^verbatim>\<open>Array.isArray(v)\<close> and \<^verbatim>\<open>typeof v === 'object'\<close>\<close>

fun isArray :: "js \<Rightarrow> bool" where
  "isArray (Arr xs) = True"
| "isArray v = False"

fun typeofObject :: "js \<Rightarrow> bool" where
  "typeofObject Null = True"
| "typeofObject (Arr xs) = True"
| "typeofObject (Obj kvs) = True"
| "typeofObject v = False"

section \<open>The outside world\<close>

text \<open>
  The services call libraries and remote APIs. Their outcomes are parameters of the model:
  \<^verbatim>\<open>Buffer.from(s, 'base64')\<close>, the \<^verbatim>\<open>sharp\<close> pipeline (resize inside 1000 x 1000, JPEG
  at quality 80), \<^verbatim>\<open>buffer.toString('base64')\<close>, \<^verbatim>\<open>axios.post\<close> to the model API and
  \<^verbatim>\<open>axios.get\<close> to the book API (each gives \<^verbatim>\<open>response.data\<close> or rejects), and
  \<^verbatim>\<open>JSON.parse\<close> (\<open>None\<close> when it throws its \<^verbatim>\<open>SyntaxError\<close>). The book lookup is a
  function of the title, which is the only varying part of its query
  \<^verbatim>\<open>{ q: `intitle:${title}`, maxResults: 1, printType: 'books' }\<close>.
\<close>

type_synonym buffer = "8 word list"

record request =
  model :: string
  systemPrompt :: string
  userText :: string
  imageUrl :: string
  max_tokens :: nat
  temperature :: "rat option"
  timeout :: nat

record world =
  fromBase64 :: "string \<Rightarrow> error + buffer"
  sharp :: "buffer \<Rightarrow> error + buffer"
  toBase64 :: "buffer \<Rightarrow> error + string"
  axios_post :: "request \<Rightarrow> error + js"
  axios_get :: "js \<Rightarrow> error + js"
  JSON_parse :: "string \<Rightarrow> js option"

section \<open>Image Normalizer: \<^verbatim>\<open>OpenAIService.compressImage\<close>\<close>

definition compressImage :: "world \<Rightarrow> string \<Rightarrow> error + string" where
  "compressImage w base64Image =
     try_catch
       (andThen (fromBase64 w base64Image) (\<lambda>buffer.
        andThen (sharp w buffer) (\<lambda>compressedBuffer.
        toBase64 w compressedBuffer)))
       (\<lambda>error. Inr base64Image)"

section \<open>Response Extractor and Model Gateway: \<^verbatim>\<open>scanBooks\<close>, \<^verbatim>\<open>extractBookTitles\<close>\<close>

text \<open>
  \<^verbatim>\<open>content.match(/(\[.*\]|\{.*\})/s)\<close>: the match starts at the leftmost position where
  one of the two alternatives matches. At a \<^verbatim>\<open>[\<close> the greedy \<^verbatim>\<open>.*\<close> (which with the
  \<^verbatim>\<open>s\<close> flag also crosses line ends) runs to the last \<^verbatim>\<open>]\<close> after it; at a \<^verbatim>\<open>{\<close> to
  the last \<^verbatim>\<open>}\<close> after it. \<open>upToLast c s\<close> is the longest prefix of \<open>s\<close> that ends with
  \<open>c\<close>. The result is \<^verbatim>\<open>jsonMatch[0]\<close>, or \<open>None\<close> for \<^verbatim>\<open>null\<close>.
\<close>

fun upToLast :: "char \<Rightarrow> string \<Rightarrow> string option" where
  "upToLast c [] = None"
| "upToLast c (x # xs) =
     (case upToLast c xs of
        Some r \<Rightarrow> Some (x # r)
      | None \<Rightarrow> if x = c then Some [x] else None)"

fun jsonMatch :: "string \<Rightarrow> string option" where
  "jsonMatch [] = None"
| "jsonMatch (x # xs) =
     (if x = CHR ''[''
      then (case upToLast CHR '']'' xs of Some r \<Rightarrow> Some (x # r) | None \<Rightarrow> jsonMatch xs)
      else if x = CHR ''{''
      then (case upToLast CHR ''}'' xs of Some r \<Rightarrow> Some (x # r) | None \<Rightarrow> jsonMatch xs)
      else jsonMatch xs)"

text \<open>\<^verbatim>\<open>response.data.choices[0].message.content\<close>\<close>

definition messageContent :: "js \<Rightarrow> error + js" where
  "messageContent data =
     andThen (readProp data ''choices'') (\<lambda>choices.
     andThen (first choices) (\<lambda>choice.
     andThen (readProp choice ''message'') (\<lambda>message.
     readProp message ''content'')))"

text \<open>
  \<^verbatim>\<open>content.match(...)\<close> on the content and \<^verbatim>\<open>JSON.parse(jsonMatch[0])\<close>. A content that
  is no string has no \<^verbatim>\<open>match\<close> method: the call throws a \<^verbatim>\<open>TypeError\<close>.
\<close>

definition parseJson :: "world \<Rightarrow> js \<Rightarrow> error + js" where
  "parseJson w content =
     (case content of
        Str s \<Rightarrow>
          (case jsonMatch s of
             None \<Rightarrow> Inl (Error ''No JSON found in response'')
           | Some jsonString \<Rightarrow>
               (case JSON_parse w jsonString of
                  None \<Rightarrow> Inl SyntaxError
                | Some v \<Rightarrow> Inr v))
      | other \<Rightarrow> Inl TypeError)"

text \<open>The \<^verbatim>\<open>catch\<close> block of both operations.\<close>

definition onError :: "error \<Rightarrow> error + 'a" where
  "onError error =
     (if code error = Str ''ECONNABORTED''
      then Inl (Thrown 408 (Str ''The API request timed out. Please try again.''))
      else Inl error)"

record book =
  title :: js
  author :: js
  isbn :: js
  genre :: js
  pageCount :: js

text \<open>The arrow function given to \<^verbatim>\<open>booksData.map\<close>.\<close>

definition toBook :: "js \<Rightarrow> error + book" where
  "toBook b =
     andThen (readProp b ''title'') (\<lambda>t.
     andThen (readProp b ''author'') (\<lambda>a.
     andThen (readProp b ''isbn'') (\<lambda>i.
     andThen (readProp b ''genre'') (\<lambda>g.
     andThen (readProp b ''page_count'') (\<lambda>p.
     andThen (readProp b ''pageCount'') (\<lambda>q.
     Inr \<lparr> title = orElse t (Str ''Unknown Title''),
           author = orElse a (Str ''Unknown Author''),
           isbn = orElse i Null,
           genre = orElse g Null,
           pageCount = orElse p (orElse q Null) \<rparr>))))))"

text \<open>
  The record that the arrow function builds from an element that is neither \<^verbatim>\<open>null\<close>
  nor \<^verbatim>\<open>undefined\<close> (on those its first property read throws).
\<close>

definition bookOf :: "js \<Rightarrow> book" where
  "bookOf b =
     \<lparr> title = orElse (field b ''title'') (Str ''Unknown Title''),
       author = orElse (field b ''author'') (Str ''Unknown Author''),
       isbn = orElse (field b ''isbn'') Null,
       genre = orElse (field b ''genre'') Null,
       pageCount = orElse (field b ''page_count'') (orElse (field b ''pageCount'') Null) \<rparr>"

text \<open>
  The rest of the \<^verbatim>\<open>try\<close> block of \<^verbatim>\<open>scanBooks\<close>, from the content on. The test
  \<^verbatim>\<open>typeof booksData === 'object' && !Array.isArray(booksData) && booksData.error\<close>
  reads \<^verbatim>\<open>booksData.error\<close> only when the first two conjuncts hold.
\<close>

definition errorOf :: "js \<Rightarrow> error + js" where
  "errorOf booksData =
     (if typeofObject booksData \<and> \<not> isArray booksData
      then readProp booksData ''error''
      else Inr (Bool False))"

definition booksFromContent :: "world \<Rightarrow> js \<Rightarrow> error + book list" where
  "booksFromContent w content =
     andThen (parseJson w content) (\<lambda>booksData.
     andThen (errorOf booksData) (\<lambda>err.
       if truthy err then Inl (Thrown 404 err)
       else (case booksData of
               Arr books \<Rightarrow> mapE toBook books
             | other \<Rightarrow> Inl (Error ''Unexpected response format''))))"

definition titlesFromContent :: "world \<Rightarrow> js \<Rightarrow> error + js list" where
  "titlesFromContent w content =
     andThen (parseJson w content) (\<lambda>titlesData.
       case titlesData of
         Arr titles \<Rightarrow> Inr titles
       | other \<Rightarrow> Inl (Error ''Unexpected response format''))"

definition scanBooksRequest :: "string \<Rightarrow> request" where
  \<open>scanBooksRequest compressedImage =
     \<lparr> model = ''gpt-4o'',
       systemPrompt = ''You are a specialized bookshelf analyzer. Extract detailed information about all books visible in images and return as a JSON array. Each book should have its own entry in the array.'',
       userText = ''Analyze this image of a bookshelf and identify all books visible. For each book, extract: title, author, isbn (if visible), genre, publication year, page count. Return the data as a JSON array of book objects. If no books are detected, reply with {"error": "No books detected"}. Format: [{book1}, {book2}, ...]'',
       imageUrl = ''data:image/jpeg;base64,'' @ compressedImage,
       max_tokens = 1000,
       temperature = None,
       timeout = 120000 \<rparr>\<close>

definition extractBookTitlesRequest :: "string \<Rightarrow> request" where
  \<open>extractBookTitlesRequest compressedImage =
     \<lparr> model = ''gpt-4o'',
       systemPrompt = ''You are a quick book title extractor. Only identify book titles from images.'',
       userText = ''Extract just the book titles (no author, no summary) from this image. Return the data as a JSON array of strings. If no books are detected, return an empty array. Format: ["Title 1", "Title 2", ...]'',
       imageUrl = ''data:image/jpeg;base64,'' @ compressedImage,
       max_tokens = 500,
       temperature = Some (3 / 10),
       timeout = 60000 \<rparr>\<close>

definition scanBooks :: "world \<Rightarrow> string \<Rightarrow> error + book list" where
  "scanBooks w imageBase64 =
     andThen (compressImage w imageBase64) (\<lambda>compressedImage.
       try_catch
         (andThen (axios_post w (scanBooksRequest compressedImage)) (\<lambda>data.
          andThen (messageContent data) (\<lambda>content.
          booksFromContent w content)))
         onError)"

definition extractBookTitles :: "world \<Rightarrow> string \<Rightarrow> error + js list" where
  "extractBookTitles w imageBase64 =
     andThen (compressImage w imageBase64) (\<lambda>compressedImage.
       try_catch
         (andThen (axios_post w (extractBookTitlesRequest compressedImage)) (\<lambda>data.
          andThen (messageContent data) (\<lambda>content.
          titlesFromContent w content)))
         onError)"

section \<open>Metadata Enricher: \<^verbatim>\<open>searchBookByTitle\<close> and the \<^verbatim>\<open>/extract-book-titles\<close> handler\<close>

text \<open>The fields of a found record other than \<^verbatim>\<open>title\<close> and \<^verbatim>\<open>found\<close>.\<close>

record volume =
  volumeId :: js
  authors :: js
  publishedDate :: js
  description :: js
  pageCount :: js
  categories :: js
  averageRating :: js
  imageLinks :: js
  previewLink :: js
  isbn10 :: js
  isbn13 :: js

text \<open>
  The three results of \<^verbatim>\<open>searchBookByTitle\<close>: \<^verbatim>\<open>{ title, found: false }\<close>,
  \<^verbatim>\<open>{ title, found: false, error: error.message }\<close> (kept here with the error that was
  caught) and \<^verbatim>\<open>{ title, found: true, id, authors, ... }\<close>.
\<close>

datatype enriched =
    NotFound js
  | LookupFailed js error
  | Found js volume

fun titleOf :: "enriched \<Rightarrow> js" where
  "titleOf (NotFound t) = t"
| "titleOf (LookupFailed t e) = t"
| "titleOf (Found t v) = t"

fun foundOf :: "enriched \<Rightarrow> bool" where
  "foundOf (Found t v) = True"
| "foundOf r = False"

text \<open>
  \<^verbatim>\<open>industryIdentifiers.find(id => id.type === ty)?.identifier\<close>. \<^verbatim>\<open>find\<close> gives the
  first element the callback accepts, \<^verbatim>\<open>undefined\<close> when there is none, and stops where
  the callback throws. Only an array has the method.
\<close>

definition hasType :: "string \<Rightarrow> js \<Rightarrow> error + bool" where
  "hasType ty ident = andThen (readProp ident ''type'') (\<lambda>v. Inr (v = Str ty))"

fun findE :: "('a \<Rightarrow> error + bool) \<Rightarrow> 'a list \<Rightarrow> error + 'a option" where
  "findE p [] = Inr None"
| "findE p (x # xs) = andThen (p x) (\<lambda>hit. if hit then Inr (Some x) else findE p xs)"

definition findIdentifier :: "string \<Rightarrow> js \<Rightarrow> error + js" where
  "findIdentifier ty industryIdentifiers =
     (case industryIdentifiers of
        Arr ids \<Rightarrow>
          andThen (findE (hasType ty) ids) (\<lambda>hit.
            Inr (optionalProp (case hit of None \<Rightarrow> Undefined | Some x \<Rightarrow> x) ''identifier''))
      | other \<Rightarrow> Inl TypeError)"

text \<open>
  \<^verbatim>\<open>d ? d.substring(0, 200) + (d.length > 200 ? '...' : '') : null\<close>. Only a string has
  \<^verbatim>\<open>substring\<close>.
\<close>

definition shorten :: "js \<Rightarrow> error + js" where
  "shorten d =
     (if truthy d
      then (case d of
              Str s \<Rightarrow> Inr (Str (take 200 s @ (if length s > 200 then ''...'' else [])))
            | other \<Rightarrow> Inl TypeError)
      else Inr Null)"

text \<open>
  The title is written into a template literal twice: \<^verbatim>\<open>`intitle:${title}`\<close> in the
  \<^verbatim>\<open>try\<close> block and \<^verbatim>\<open>`Error searching for book "${title}":`\<close> in the \<^verbatim>\<open>catch\<close>
  block. That converts it to a string, and the conversion of a parsed value can throw a
  \<^verbatim>\<open>TypeError\<close>: an object with an own property \<^verbatim>\<open>toString\<close> has no callable
  \<^verbatim>\<open>toString\<close>, and its \<^verbatim>\<open>valueOf\<close> gives no primitive; an array joins the conversions
  of its elements. Every other value converts.
\<close>

fun convertible :: "js \<Rightarrow> bool" where
  "convertible (Obj kvs) = (map_of kvs ''toString'' = None)"
| "convertible (Arr xs) = (\<forall>x \<in> set xs. convertible x)"
| "convertible v = True"

definition interpolate :: "js \<Rightarrow> error + unit" where
  "interpolate v = (if convertible v then Inr () else Inl TypeError)"

text \<open>
  \<^verbatim>\<open>volumeInfo\<close> is \<^verbatim>\<open>book.volumeInfo || {}\<close>, so it is truthy and a property read on it
  cannot throw: those reads are written with \<open>field\<close>. The \<^verbatim>\<open>catch\<close> block is outside
  every \<^verbatim>\<open>try\<close>: when the title cannot be converted there, the promise rejects.
\<close>

definition searchBookByTitle :: "world \<Rightarrow> js \<Rightarrow> error + enriched" where
  "searchBookByTitle w t =
     try_catch
       (andThen (interpolate t) (\<lambda>q.
        andThen (axios_get w t) (\<lambda>data.
        andThen (readProp data ''totalItems'') (\<lambda>totalItems.
          if totalItems = Num (Finite 0) then Inr (NotFound t)
          else
            andThen (readProp data ''items'') (\<lambda>items.
            andThen (first items) (\<lambda>b.
            andThen (readProp b ''volumeInfo'') (\<lambda>vi.
              let volumeInfo = orElse vi (Obj []);
                  industryIdentifiers = orElse (field volumeInfo ''industryIdentifiers'') (Arr [])
              in
                andThen (findIdentifier ''ISBN_10'' industryIdentifiers) (\<lambda>i10.
                andThen (findIdentifier ''ISBN_13'' industryIdentifiers) (\<lambda>i13.
                andThen (readProp b ''id'') (\<lambda>bid.
                andThen (shorten (field volumeInfo ''description'')) (\<lambda>d.
                  Inr (Found t
                    \<lparr> volumeId = bid,
                      authors = orElse (field volumeInfo ''authors'') (Arr []),
                      publishedDate = field volumeInfo ''publishedDate'',
                      description = d,
                      pageCount = field volumeInfo ''pageCount'',
                      categories = orElse (field volumeInfo ''categories'') (Arr []),
                      averageRating = field volumeInfo ''averageRating'',
                      imageLinks = orElse (field volumeInfo ''imageLinks'') (Obj []),
                      previewLink = field volumeInfo ''previewLink'',
                      isbn10 = i10,
                      isbn13 = i13 \<rparr>))))))))))))
       (\<lambda>error. andThen (interpolate t) (\<lambda>logged. Inr (LookupFailed t error)))"

text \<open>
  \<^verbatim>\<open>Promise.all\<close>: the results in the order of the promises when all fulfil, a rejection
  when one rejects. A lookup only rejects on a title that cannot be converted, and it does
  so before its first \<^verbatim>\<open>await\<close>, so of several rejections the leftmost one settles first.
\<close>

definition Promise_all :: "(error + 'a) list \<Rightarrow> error + 'a list" where
  "Promise_all ps = mapE (\<lambda>p. p) ps"

text \<open>
  The handler's \<^verbatim>\<open>titles.map(title => googleBooksService.searchBookByTitle(title))\<close>
  joined by \<^verbatim>\<open>Promise.all\<close>, and the \<^verbatim>\<open>try\<close> block of the handler around it.
\<close>

definition enrichTitles :: "world \<Rightarrow> js list \<Rightarrow> error + enriched list" where
  "enrichTitles w titles = Promise_all (map (searchBookByTitle w) titles)"

definition extractBookTitlesHandler :: "world \<Rightarrow> string \<Rightarrow> error + enriched list" where
  "extractBookTitlesHandler w imageBase64 =
     andThen (extractBookTitles w imageBase64) (\<lambda>titles. enrichTitles w titles)"

section \<open>Notions used to state the properties\<close>

text \<open>
  The text the model answered with, as the operation built with \<open>mkRequest\<close> receives it:
  the image is normalized, the request is posted, and the content is read from the reply.
\<close>

definition modelOutput :: "world \<Rightarrow> (string \<Rightarrow> request) \<Rightarrow> string \<Rightarrow> error + js" where
  "modelOutput w mkRequest imageBase64 =
     andThen (compressImage w imageBase64) (\<lambda>compressedImage.
     andThen (axios_post w (mkRequest compressedImage)) messageContent)"

text \<open>
  The match of a lookup is the first item of the reply, its identifier list is the array
  \<^verbatim>\<open>volumeInfo.industryIdentifiers\<close> (no entries when there is no such array), and the
  identifier of a type is read from the first entry of that type.
\<close>

definition volumeInfoOf :: "js \<Rightarrow> js" where
  "volumeInfoOf data =
     orElse (field (case first (field data ''items'') of Inr b \<Rightarrow> b | Inl e \<Rightarrow> Undefined)
                   ''volumeInfo'')
            (Obj [])"

definition identifierList :: "js \<Rightarrow> js list" where
  "identifierList volumeInfo =
     (case field volumeInfo ''industryIdentifiers'' of Arr ids \<Rightarrow> ids | other \<Rightarrow> [])"

definition firstIdentifier :: "string \<Rightarrow> js list \<Rightarrow> js" where
  "firstIdentifier ty ids =
     (case find (\<lambda>x. field x ''type'' = Str ty) ids of
        None \<Rightarrow> Undefined
      | Some x \<Rightarrow> field x ''identifier'')"

section \<open>Example worlds\<close>

text \<open>
  Replies of the model API and of the book API, and the values of \<^verbatim>\<open>JSON.parse\<close> on the
  texts used below. In these worlds \<^verbatim>\<open>sharp\<close> rejects the image, so it is sent as it
  came.
\<close>

definition replyWith :: "string \<Rightarrow> js" where
  "replyWith content =
     Obj [(''choices'',
           Arr [Obj [(''index'', Num (Finite 0)),
                     (''message'', Obj [(''role'', Str ''assistant''),
                                        (''content'', Str content)])]])]"

definition wrappedSentinelJson :: string where
  \<open>wrappedSentinelJson = ''[{"error":"No books detected"}]''\<close>

definition wrappedSentinelText :: string where
  "wrappedSentinelText =
     ''I looked at the image. '' @ wrappedSentinelJson @ '' Try another photo.''"

definition bareSentinelJson :: string where
  \<open>bareSentinelJson = ''{"error": "No books detected"}''\<close>

definition bareSentinelText :: string where
  "bareSentinelText = ''Result: '' @ bareSentinelJson @ '' - sorry.''"

definition oneTitleJson :: string where
  \<open>oneTitleJson = ''[{"title":"X"}]''\<close>

definition oneTitleText :: string where
  "oneTitleText = ''Here is the list: '' @ oneTitleJson"

definition mixedTitlesJson :: string where
  \<open>mixedTitlesJson = ''["Dune", 42]''\<close>

definition mixedTitlesText :: string where
  "mixedTitlesText = ''Titles: '' @ mixedTitlesJson"

definition falsyFieldsJson :: string where
  \<open>falsyFieldsJson =
     ''[{"title":"","author":"","isbn":"","genre":"","page_count":0},{"title":"Emma","pageCount":0}]''\<close>

definition threeTitlesJson :: string where
  \<open>threeTitlesJson = ''["Dune", "Emma", "Zorba"]''\<close>

definition threeTitlesText :: string where
  "threeTitlesText = ''The titles I can read are '' @ threeTitlesJson"

definition bothPageCountsJson :: string where
  \<open>bothPageCountsJson = ''[{"title":"Emma","page_count":0,"pageCount":320}]''\<close>

definition bothPageCountsText :: string where
  "bothPageCountsText = ''One book: '' @ bothPageCountsJson"

definition oddTitlesJson :: string where
  \<open>oddTitlesJson = ''["Dune", {"toString": 1}]''\<close>

definition oddTitlesText :: string where
  "oddTitlesText = ''Titles: '' @ oddTitlesJson"

definition proseText :: string where
  "proseText = ''I am sorry, I cannot see any books in this picture.''"

definition exampleParse :: "string \<Rightarrow> js option" where
  "exampleParse s =
     (if s = wrappedSentinelJson
        then Some (Arr [Obj [(''error'', Str ''No books detected'')]])
      else if s = bareSentinelJson
        then Some (Obj [(''error'', Str ''No books detected'')])
      else if s = oneTitleJson
        then Some (Arr [Obj [(''title'', Str ''X'')]])
      else if s = mixedTitlesJson
        then Some (Arr [Str ''Dune'', Num (Finite 42)])
      else if s = falsyFieldsJson
        then Some (Arr [Obj [(''title'', Str []), (''author'', Str []), (''isbn'', Str []),
                             (''genre'', Str []), (''page_count'', Num (Finite 0))],
                        Obj [(''title'', Str ''Emma''), (''pageCount'', Num (Finite 0))]])
      else if s = threeTitlesJson
        then Some (Arr [Str ''Dune'', Str ''Emma'', Str ''Zorba''])
      else if s = bothPageCountsJson
        then Some (Arr [Obj [(''title'', Str ''Emma''), (''page_count'', Num (Finite 0)),
                             (''pageCount'', Num (Finite 320))]])
      else if s = oddTitlesJson
        then Some (Arr [Str ''Dune'', Obj [(''toString'', Num (Finite 1))]])
      else None)"

definition duneReply :: js where
  "duneReply =
     Obj [(''kind'', Str ''books#volumes''),
          (''totalItems'', Num (Finite 1)),
          (''items'',
           Arr [Obj [(''id'', Str ''B1hSG45JCX4C''),
                     (''volumeInfo'',
                      Obj [(''title'', Str ''Dune''),
                           (''authors'', Arr [Str ''Frank Herbert'']),
                           (''description'', Str ''A desert planet.''),
                           (''industryIdentifiers'',
                            Arr [Obj [(''type'', Str ''ISBN_13''),
                                      (''identifier'', Str ''9780441172719'')],
                                 Obj [(''type'', Str ''ISBN_10''),
                                      (''identifier'', Str ''0441172717'')],
                                 Obj [(''type'', Str ''ISBN_10''),
                                      (''identifier'', Str ''0000000000'')]])])]])]"

definition longReply :: js where
  "longReply =
     Obj [(''totalItems'', Num (Finite 1)),
          (''items'',
           Arr [Obj [(''id'', Str ''L1''),
                     (''volumeInfo'',
                      Obj [(''title'', Str ''Long''),
                           (''description'', Str (replicate 201 CHR ''a''))])]])]"

definition emptyDescriptionReply :: js where
  "emptyDescriptionReply =
     Obj [(''totalItems'', Num (Finite 1)),
          (''items'',
           Arr [Obj [(''id'', Str ''E1''),
                     (''volumeInfo'', Obj [(''title'', Str ''Blank''), (''description'', Str [])])]])]"

definition ulyssesReply :: js where
  "ulyssesReply =
     Obj [(''totalItems'', Num (Finite 1)),
          (''items'',
           Arr [Obj [(''id'', Str ''U1''),
                     (''volumeInfo'',
                      Obj [(''title'', Str ''Ulysses''),
                           (''industryIdentifiers'',
                            Arr [Obj [(''type'', Str ''OTHER''),
                                      (''identifier'', Str ''OCLC:1234'')],
                                 Obj [(''type'', Str ''ISBN_13''),
                                      (''identifier'', Str ''9780199535675'')]])])]])]"

definition serviceUnavailable :: error where
  "serviceUnavailable =
     AxiosError (Some ''ERR_BAD_RESPONSE'') ''Request failed with status code 503''
       (Some (503, Null))"

definition exampleCatalog :: "js \<Rightarrow> error + js" where
  "exampleCatalog t =
     (if t = Str ''Dune'' then Inr duneReply
      else if t = Str ''Long'' then Inr longReply
      else if t = Str ''Blank'' then Inr emptyDescriptionReply
      else if t = Str ''Ulysses'' then Inr ulyssesReply
      else if t = Str ''Emma''
        then Inr (Obj [(''kind'', Str ''books#volumes''), (''totalItems'', Num (Finite 0))])
      else Inl serviceUnavailable)"

text \<open>The records expected for these replies.\<close>

definition duneRecord :: volume where
  "duneRecord =
     \<lparr> volumeId = Str ''B1hSG45JCX4C'',
       authors = Arr [Str ''Frank Herbert''],
       publishedDate = Undefined,
       description = Str ''A desert planet.'',
       pageCount = Undefined,
       categories = Arr [],
       averageRating = Undefined,
       imageLinks = Obj [],
       previewLink = Undefined,
       isbn10 = Str ''0441172717'',
       isbn13 = Str ''9780441172719'' \<rparr>"

definition longRecord :: volume where
  "longRecord =
     \<lparr> volumeId = Str ''L1'',
       authors = Arr [],
       publishedDate = Undefined,
       description = Str (replicate 200 CHR ''a'' @ ''...''),
       pageCount = Undefined,
       categories = Arr [],
       averageRating = Undefined,
       imageLinks = Obj [],
       previewLink = Undefined,
       isbn10 = Undefined,
       isbn13 = Undefined \<rparr>"

definition blankRecord :: volume where
  "blankRecord =
     \<lparr> volumeId = Str ''E1'',
       authors = Arr [],
       publishedDate = Undefined,
       description = Null,
       pageCount = Undefined,
       categories = Arr [],
       averageRating = Undefined,
       imageLinks = Obj [],
       previewLink = Undefined,
       isbn10 = Undefined,
       isbn13 = Undefined \<rparr>"

definition ulyssesRecord :: volume where
  "ulyssesRecord =
     \<lparr> volumeId = Str ''U1'',
       authors = Arr [],
       publishedDate = Undefined,
       description = Null,
       pageCount = Undefined,
       categories = Arr [],
       averageRating = Undefined,
       imageLinks = Obj [],
       previewLink = Undefined,
       isbn10 = Undefined,
       isbn13 = Str ''9780199535675'' \<rparr>"

text \<open>
  The image of the examples is the base64 text of the five bytes of \<^verbatim>\<open>hello\<close>, which
  \<^verbatim>\<open>sharp\<close> rejects as no image.
\<close>

definition helloImage :: string where
  "helloImage = ''aGVsbG8=''"

definition helloBytes :: buffer where
  "helloBytes = [0x68, 0x65, 0x6C, 0x6C, 0x6F]"

definition unsupportedImage :: error where
  "unsupportedImage = Error ''Input buffer contains unsupported image format''"

definition answering :: "string \<Rightarrow> world" where
  "answering content =
     \<lparr> fromBase64 = (\<lambda>s. Inr (if s = helloImage then helloBytes else [])),
       sharp = (\<lambda>b. Inl unsupportedImage),
       toBase64 = (\<lambda>b. Inr []),
       axios_post = (\<lambda>req. Inr (replyWith content)),
       axios_get = exampleCatalog,
       JSON_parse = exampleParse \<rparr>"

definition rejecting :: "error \<Rightarrow> world" where
  "rejecting e =
     \<lparr> fromBase64 = (\<lambda>s. Inr (if s = helloImage then helloBytes else [])),
       sharp = (\<lambda>b. Inl unsupportedImage),
       toBase64 = (\<lambda>b. Inr []),
       axios_post = (\<lambda>req. Inl e),
       axios_get = exampleCatalog,
       JSON_parse = exampleParse \<rparr>"

definition timedOut :: error where
  "timedOut = AxiosError (Some ''ECONNABORTED'') ''timeout of 120000ms exceeded'' None"

definition unauthorized :: error where
  "unauthorized =
     AxiosError (Some ''ERR_BAD_REQUEST'') ''Request failed with status code 401''
       (Some (401, Obj [(''error'', Obj [(''message'', Str ''Incorrect API key provided'')])]))"

section \<open>Basic facts\<close>

lemma andThen_Inl: "andThen (Inl e) f = Inl e"
  by (simp add: andThen_def)

lemma andThen_Inr: "andThen (Inr v) f = f v"
  by (simp add: andThen_def)

lemma try_catch_Inl: "try_catch (Inl e) h = h e"
  by (simp add: try_catch_def)

lemma try_catch_Inr: "try_catch (Inr v) h = Inr v"
  by (simp add: try_catch_def)

lemma compressImage_cases:
  "compressImage w img =
     (case fromBase64 w img of
        Inl e \<Rightarrow> Inr img
      | Inr b \<Rightarrow> (case sharp w b of
                   Inl e \<Rightarrow> Inr img
                 | Inr b' \<Rightarrow> (case toBase64 w b' of Inl e \<Rightarrow> Inr img | Inr s \<Rightarrow> Inr s)))"
  by (simp add: compressImage_def try_catch_def andThen_def split: sum.splits)

lemma compressImage_returns: "\<exists>s. compressImage w img = Inr s"
  by (simp add: compressImage_cases split: sum.splits)

text \<open>
  Claim C3. The Image Normalizer never throws: \<open>compressImage\<close> always returns a string.
  Whenever a step of its pipeline fails (decoding the base64 text, the resize and JPEG
  re-encoding by \<^verbatim>\<open>sharp\<close>, or encoding the result), it returns the original input
  string unchanged.
\<close>

theorem compressImage_degrades:
  "(\<exists>s. compressImage w img = Inr s) \<and>
   ((\<exists>e. fromBase64 w img = Inl e) \<or>
    (\<exists>b e. fromBase64 w img = Inr b \<and> sharp w b = Inl e) \<or>
    (\<exists>b b' e. fromBase64 w img = Inr b \<and> sharp w b = Inr b' \<and> toBase64 w b' = Inl e)
    \<longrightarrow> compressImage w img = Inr img)"
  by (auto simp: compressImage_cases split: sum.splits)

text \<open>An image that \<^verbatim>\<open>sharp\<close> rejects comes back as it was given.\<close>

theorem compressImage_degrades_witness:
  "fromBase64 (answering proseText) helloImage = Inr helloBytes \<and>
   sharp (answering proseText) helloBytes = Inl unsupportedImage \<and>
   compressImage (answering proseText) helloImage = Inr helloImage"
  using compressImage_degrades [of "answering proseText" helloImage]
  by (simp add: answering_def)

section \<open>The regular expression\<close>

lemma upToLast_None: "upToLast c xs = None \<longleftrightarrow> c \<notin> set xs"
  by (induction xs) (auto split: option.splits)

lemma upToLast_SomeD: "upToLast c xs = Some r \<Longrightarrow> c \<in> set xs"
  using upToLast_None [of c xs] by auto

lemma delimited_Cons:
  "(\<exists>a b d. x # xs = a @ l # b @ r # d) \<longleftrightarrow>
     (x = l \<and> r \<in> set xs) \<or> (\<exists>a b d. xs = a @ l # b @ r # d)"
  (is "?L \<longleftrightarrow> ?R")
proof
  assume ?L
  then obtain a b d where eq: "x # xs = a @ l # b @ r # d" by blast
  show ?R
  proof (cases a)
    case Nil
    with eq have "x = l" and "xs = b @ r # d" by auto
    then show ?thesis by auto
  next
    case (Cons y a')
    with eq have "xs = a' @ l # b @ r # d" by auto
    then show ?thesis by blast
  qed
next
  assume ?R
  then show ?L
  proof
    assume h: "x = l \<and> r \<in> set xs"
    then obtain b d where "xs = b @ r # d" by (meson split_list)
    with h have "x # xs = [] @ l # b @ r # d" by simp
    then show ?L by blast
  next
    assume "\<exists>a b d. xs = a @ l # b @ r # d"
    then obtain a b d where "xs = a @ l # b @ r # d" by blast
    then have "x # xs = (x # a) @ l # b @ r # d" by simp
    then show ?L by blast
  qed
qed

lemma jsonMatch_None:
  "jsonMatch s = None \<longleftrightarrow>
     (\<nexists>a b d. s = a @ CHR ''['' # b @ CHR '']'' # d) \<and>
     (\<nexists>a b d. s = a @ CHR ''{'' # b @ CHR ''}'' # d)"
proof (induction s)
  case Nil
  then show ?case by simp
next
  case (Cons x xs)
  show ?case
    unfolding delimited_Cons using Cons.IH
    by (auto simp: upToLast_None dest: upToLast_SomeD split: option.splits)
qed

section \<open>The two vision operations\<close>

lemma onError_plain: "code e = Undefined \<Longrightarrow> onError e = Inl e"
  by (simp add: onError_def)

lemma readProp_error: "readProp v k = Inl e \<Longrightarrow> e = TypeError"
  by (simp add: readProp_def split: if_splits)

lemma toBook_error: "toBook b = Inl e \<Longrightarrow> e = TypeError"
  by (auto simp: toBook_def andThen_def readProp_def split: sum.splits if_splits)

lemma mapE_error:
  assumes "\<And>x e. f x = Inl e \<Longrightarrow> P e" and "mapE f xs = Inl e"
  shows "P e"
  using assms(2)
proof (induction xs arbitrary: e)
  case Nil
  then show ?case by simp
next
  case (Cons x xs)
  then show ?case
    by (auto simp: andThen_def split: sum.splits dest: assms(1))
qed

lemma parseJson_error: "parseJson w content = Inl e \<Longrightarrow> code e = Undefined"
  by (auto simp: parseJson_def split: js.splits option.splits)

lemma errorOf_error: "errorOf v = Inl e \<Longrightarrow> e = TypeError"
  by (auto simp: errorOf_def split: if_splits dest: readProp_error)

lemma booksFromContent_error: "booksFromContent w content = Inl e \<Longrightarrow> code e = Undefined"
proof -
  assume h: "booksFromContent w content = Inl e"
  have m: "\<And>xs e. mapE toBook xs = Inl e \<Longrightarrow> code e = Undefined"
    using mapE_error [where f = toBook and P = "\<lambda>e. e = TypeError"] toBook_error
    by fastforce
  from h show ?thesis
    by (auto simp: booksFromContent_def andThen_def split: sum.splits if_splits js.splits
             dest: parseJson_error errorOf_error m)
qed

lemma titlesFromContent_error: "titlesFromContent w content = Inl e \<Longrightarrow> code e = Undefined"
  by (auto simp: titlesFromContent_def andThen_def split: sum.splits js.splits
           dest: parseJson_error)

lemma try_catch_onError:
  assumes "\<And>e. body = Inl e \<Longrightarrow> code e = Undefined"
  shows "try_catch body onError = body"
  using assms by (cases body) (simp_all add: try_catch_def onError_plain)

lemma scanBooks_output:
  assumes "modelOutput w scanBooksRequest img = Inr content"
  shows "scanBooks w img = booksFromContent w content"
proof -
  obtain ci where ci: "compressImage w img = Inr ci"
    using compressImage_returns by blast
  with assms obtain data where d: "axios_post w (scanBooksRequest ci) = Inr data"
      and c: "messageContent data = Inr content"
    by (auto simp: modelOutput_def andThen_def split: sum.splits)
  have "scanBooks w img = try_catch (booksFromContent w content) onError"
    by (simp add: scanBooks_def ci d c andThen_Inr)
  then show ?thesis
    by (simp add: try_catch_onError booksFromContent_error)
qed

lemma extractBookTitles_output:
  assumes "modelOutput w extractBookTitlesRequest img = Inr content"
  shows "extractBookTitles w img = titlesFromContent w content"
proof -
  obtain ci where ci: "compressImage w img = Inr ci"
    using compressImage_returns by blast
  with assms obtain data where d: "axios_post w (extractBookTitlesRequest ci) = Inr data"
      and c: "messageContent data = Inr content"
    by (auto simp: modelOutput_def andThen_def split: sum.splits)
  have "extractBookTitles w img = try_catch (titlesFromContent w content) onError"
    by (simp add: extractBookTitles_def ci d c andThen_Inr)
  then show ?thesis
    by (simp add: try_catch_onError titlesFromContent_error)
qed

text \<open>
  Claim C7. When the model output text has no substring that starts with \<^verbatim>\<open>[\<close> and ends
  with \<^verbatim>\<open>]\<close> and none that starts with \<^verbatim>\<open>{\<close> and ends with \<^verbatim>\<open>}\<close>, both
  \<open>scanBooks\<close> and \<open>extractBookTitles\<close> throw \<^verbatim>\<open>Error("No JSON found in response")\<close>:
  they return no value and do not throw the not-found object.
\<close>

theorem no_json_found:
  assumes "\<nexists>a b d. c = a @ CHR ''['' # b @ CHR '']'' # d"
      and "\<nexists>a b d. c = a @ CHR ''{'' # b @ CHR ''}'' # d"
  shows "(modelOutput w scanBooksRequest img = Inr (Str c) \<longrightarrow>
            scanBooks w img = Inl (Error ''No JSON found in response'')) \<and>
         (modelOutput w extractBookTitlesRequest img = Inr (Str c) \<longrightarrow>
            extractBookTitles w img = Inl (Error ''No JSON found in response''))"
proof -
  from assms have "jsonMatch c = None"
    by (simp add: jsonMatch_None)
  then have p: "parseJson w (Str c) = Inl (Error ''No JSON found in response'')"
    by (simp add: parseJson_def)
  show ?thesis
    by (simp add: scanBooks_output extractBookTitles_output booksFromContent_def
                  titlesFromContent_def p andThen_Inl)
qed

text \<open>In the example worlds the model output is the given text.\<close>

lemma modelOutput_answering:
  "modelOutput (answering c) mk img = Inr (Str c)"
  by (simp add: modelOutput_def compressImage_cases answering_def andThen_def
                messageContent_def replyWith_def readProp_def)

text \<open>A reply in plain prose.\<close>

theorem no_json_found_witness:
  "(\<nexists>a b d. proseText = a @ CHR ''['' # b @ CHR '']'' # d) \<and>
   (\<nexists>a b d. proseText = a @ CHR ''{'' # b @ CHR ''}'' # d) \<and>
   modelOutput (answering proseText) scanBooksRequest helloImage = Inr (Str proseText) \<and>
   modelOutput (answering proseText) extractBookTitlesRequest helloImage = Inr (Str proseText) \<and>
   scanBooks (answering proseText) helloImage = Inl (Error ''No JSON found in response'') \<and>
   extractBookTitles (answering proseText) helloImage = Inl (Error ''No JSON found in response'')"
proof -
  have m: "jsonMatch proseText = None"
    by (simp add: proseText_def)
  then have n: "(\<nexists>a b d. proseText = a @ CHR ''['' # b @ CHR '']'' # d) \<and>
                (\<nexists>a b d. proseText = a @ CHR ''{'' # b @ CHR ''}'' # d)"
    using jsonMatch_None [of proseText] by blast
  from n have n1: "\<nexists>a b d. proseText = a @ CHR ''['' # b @ CHR '']'' # d"
    and n2: "\<nexists>a b d. proseText = a @ CHR ''{'' # b @ CHR ''}'' # d" by blast+
  show ?thesis
    using no_json_found [OF n1 n2, of "answering proseText" helloImage] n
    by (simp add: modelOutput_answering)
qed

text \<open>
  Claim C4. In both vision operations a rejection of the outbound call whose code is
  \<^verbatim>\<open>ECONNABORTED\<close> (the code axios gives an exceeded timeout) becomes the thrown object
  with status 408 and the message "The API request timed out. Please try again."; any
  other rejection is thrown on unchanged, with its code, message and response.
\<close>

theorem timeout_translated:
  assumes "compressImage w img = Inr ci"
  shows "(axios_post w (scanBooksRequest ci) = Inl e \<and> code e = Str ''ECONNABORTED'' \<longrightarrow>
            scanBooks w img =
              Inl (Thrown 408 (Str ''The API request timed out. Please try again.''))) \<and>
         (axios_post w (scanBooksRequest ci) = Inl e \<and> code e \<noteq> Str ''ECONNABORTED'' \<longrightarrow>
            scanBooks w img = Inl e) \<and>
         (axios_post w (extractBookTitlesRequest ci) = Inl e \<and> code e = Str ''ECONNABORTED'' \<longrightarrow>
            extractBookTitles w img =
              Inl (Thrown 408 (Str ''The API request timed out. Please try again.''))) \<and>
         (axios_post w (extractBookTitlesRequest ci) = Inl e \<and> code e \<noteq> Str ''ECONNABORTED'' \<longrightarrow>
            extractBookTitles w img = Inl e)"
  using assms
  by (simp add: scanBooks_def extractBookTitles_def andThen_def try_catch_def onError_def)

text \<open>A request that times out, and one that the service refuses with status 401.\<close>

theorem timeout_translated_witness:
  "compressImage (rejecting timedOut) helloImage = Inr helloImage \<and>
   code timedOut = Str ''ECONNABORTED'' \<and>
   scanBooks (rejecting timedOut) helloImage =
     Inl (Thrown 408 (Str ''The API request timed out. Please try again.'')) \<and>
   extractBookTitles (rejecting timedOut) helloImage =
     Inl (Thrown 408 (Str ''The API request timed out. Please try again.'')) \<and>
   code unauthorized \<noteq> Str ''ECONNABORTED'' \<and>
   scanBooks (rejecting unauthorized) helloImage = Inl unauthorized \<and>
   extractBookTitles (rejecting unauthorized) helloImage = Inl unauthorized"
proof -
  have c: "\<And>e. compressImage (rejecting e) helloImage = Inr helloImage"
    by (simp add: compressImage_cases rejecting_def)
  have p: "\<And>e r. axios_post (rejecting e) r = Inl e"
    by (simp add: rejecting_def)
  have t: "code timedOut = Str ''ECONNABORTED''"
    by (simp add: timedOut_def)
  have u: "code unauthorized \<noteq> Str ''ECONNABORTED''"
    by (simp add: unauthorized_def)
  show ?thesis
    using timeout_translated [OF c, of timedOut timedOut]
          timeout_translated [OF c, of unauthorized unauthorized]
    by (simp add: c p t u)
qed

lemma toBook_value:
  "b \<noteq> Null \<Longrightarrow> b \<noteq> Undefined \<Longrightarrow> toBook b = Inr (bookOf b)"
  by (simp add: toBook_def bookOf_def readProp_def andThen_def)

lemma mapE_values:
  "(\<And>x. x \<in> set xs \<Longrightarrow> f x = Inr (g x)) \<Longrightarrow> mapE f xs = Inr (map g xs)"
  by (induction xs) (simp_all add: andThen_def)

lemma parseJson_value:
  "jsonMatch c = Some s \<Longrightarrow> JSON_parse w s = Some v \<Longrightarrow> parseJson w (Str c) = Inr v"
  by (simp add: parseJson_def)

lemma scanBooks_array:
  assumes "modelOutput w scanBooksRequest img = Inr (Str c)"
      and "jsonMatch c = Some s"
      and "JSON_parse w s = Some (Arr elems)"
  shows "scanBooks w img = mapE toBook elems"
  using assms
  by (simp add: scanBooks_output booksFromContent_def parseJson_value errorOf_def andThen_def)

lemma scanBooks_records:
  assumes "modelOutput w scanBooksRequest img = Inr (Str c)"
      and "jsonMatch c = Some s"
      and "JSON_parse w s = Some (Arr elems)"
      and "Null \<notin> set elems" and "Undefined \<notin> set elems"
  shows "scanBooks w img = Inr (map bookOf elems)"
proof -
  have "mapE toBook elems = Inr (map bookOf elems)"
    using assms(4,5) by (intro mapE_values toBook_value) auto
  with assms(1-3) show ?thesis
    by (simp add: scanBooks_array)
qed

text \<open>
  Claim C2, as the code has it. When the first bracket- or brace-delimited substring of
  the model output parses to an object (not an array) whose \<^verbatim>\<open>error\<close> property is truthy,
  such as \<^verbatim>\<open>{"error": msg}\<close> with a non-empty string \<^verbatim>\<open>msg\<close>, \<open>scanBooks\<close> throws the
  not-found object with status 404 and that message. The test excludes arrays, so the
  wrapped form \<^verbatim>\<open>[{"error": msg}]\<close> is not the sentinel.
\<close>

theorem sentinel_object_not_found:
  assumes "modelOutput w scanBooksRequest img = Inr (Str c)"
      and "jsonMatch c = Some s"
      and "JSON_parse w s = Some (Obj kvs)"
      and "map_of kvs ''error'' = Some msg"
      and "truthy msg"
  shows "scanBooks w img = Inl (Thrown 404 msg)"
  using assms
  by (simp add: scanBooks_output booksFromContent_def parseJson_value errorOf_def
                readProp_def andThen_def)

text \<open>The bare sentinel inside prose.\<close>

theorem sentinel_object_not_found_witness:
  "modelOutput (answering bareSentinelText) scanBooksRequest helloImage = Inr (Str bareSentinelText) \<and>
   jsonMatch bareSentinelText = Some bareSentinelJson \<and>
   JSON_parse (answering bareSentinelText) bareSentinelJson =
     Some (Obj [(''error'', Str ''No books detected'')]) \<and>
   truthy (Str ''No books detected'') \<and>
   scanBooks (answering bareSentinelText) helloImage = Inl (Thrown 404 (Str ''No books detected''))"
proof -
  have m: "jsonMatch bareSentinelText = Some bareSentinelJson"
    by (simp add: bareSentinelText_def bareSentinelJson_def)
  have p: "JSON_parse (answering bareSentinelText) bareSentinelJson =
             Some (Obj [(''error'', Str ''No books detected'')])"
    by (simp add: answering_def exampleParse_def bareSentinelJson_def wrappedSentinelJson_def)
  have e: "map_of [(''error'', Str ''No books detected'')] ''error'' = Some (Str ''No books detected'')"
    by simp
  have t: "truthy (Str ''No books detected'')"
    by simp
  show ?thesis
    using sentinel_object_not_found [OF modelOutput_answering m p e t, of helloImage] m p
    by (simp add: modelOutput_answering)
qed

text \<open>
  The claim as stated fails on the wrapped form: the parsed value is an array, and
  \<open>scanBooks\<close> returns one record made of the defaults.
\<close>

theorem wrapped_sentinel_counterexample:
  "jsonMatch wrappedSentinelText = Some wrappedSentinelJson \<and>
   JSON_parse (answering wrappedSentinelText) wrappedSentinelJson =
     Some (Arr [Obj [(''error'', Str ''No books detected'')]]) \<and>
   scanBooks (answering wrappedSentinelText) helloImage =
     Inr [\<lparr> title = Str ''Unknown Title'', author = Str ''Unknown Author'',
            isbn = Null, genre = Null, pageCount = Null \<rparr>] \<and>
   scanBooks (answering wrappedSentinelText) helloImage \<noteq>
     Inl (Thrown 404 (Str ''No books detected''))"
proof -
  have m: "jsonMatch wrappedSentinelText = Some wrappedSentinelJson"
    by (simp add: wrappedSentinelText_def wrappedSentinelJson_def)
  have p: "JSON_parse (answering wrappedSentinelText) wrappedSentinelJson =
             Some (Arr [Obj [(''error'', Str ''No books detected'')]])"
    by (simp add: answering_def exampleParse_def)
  have "scanBooks (answering wrappedSentinelText) helloImage =
          Inr (map bookOf [Obj [(''error'', Str ''No books detected'')]])"
    by (rule scanBooks_records [OF modelOutput_answering m p]) simp_all
  then show ?thesis
    using m p by (simp add: bookOf_def orElse_def)
qed

text \<open>
  Claim C5, as the code has it. When the first JSON substring of the model output parses
  to a value, \<open>extractBookTitles\<close> returns that value unchanged whenever it is an array,
  whatever its elements are (they are not checked to be strings), and throws
  \<^verbatim>\<open>Error("Unexpected response format")\<close> when the value is not an array.
\<close>

theorem titles_array_unchecked:
  assumes "modelOutput w extractBookTitlesRequest img = Inr (Str c)"
      and "jsonMatch c = Some s"
      and "JSON_parse w s = Some v"
  shows "extractBookTitles w img =
           (case v of
              Arr titles \<Rightarrow> Inr titles
            | other \<Rightarrow> Inl (Error ''Unexpected response format''))"
  using assms
  by (simp add: extractBookTitles_output titlesFromContent_def parseJson_value andThen_def)

text \<open>An object instead of an array: the bare sentinel is an unexpected format here.\<close>

theorem titles_array_unchecked_witness:
  "modelOutput (answering bareSentinelText) extractBookTitlesRequest helloImage =
     Inr (Str bareSentinelText) \<and>
   jsonMatch bareSentinelText = Some bareSentinelJson \<and>
   JSON_parse (answering bareSentinelText) bareSentinelJson =
     Some (Obj [(''error'', Str ''No books detected'')]) \<and>
   extractBookTitles (answering bareSentinelText) helloImage =
     Inl (Error ''Unexpected response format'')"
proof -
  have m: "jsonMatch bareSentinelText = Some bareSentinelJson"
    by (simp add: bareSentinelText_def bareSentinelJson_def)
  have p: "JSON_parse (answering bareSentinelText) bareSentinelJson =
             Some (Obj [(''error'', Str ''No books detected'')])"
    by (simp add: answering_def exampleParse_def bareSentinelJson_def wrappedSentinelJson_def)
  show ?thesis
    using titles_array_unchecked [OF modelOutput_answering m p, of helloImage] m p
    by (simp add: modelOutput_answering)
qed

text \<open>
  The claim as stated fails on an array with an element that is no string: the array is
  returned, the number included.
\<close>

theorem mixed_titles_counterexample:
  "jsonMatch mixedTitlesText = Some mixedTitlesJson \<and>
   JSON_parse (answering mixedTitlesText) mixedTitlesJson =
     Some (Arr [Str ''Dune'', Num (Finite 42)]) \<and>
   extractBookTitles (answering mixedTitlesText) helloImage =
     Inr [Str ''Dune'', Num (Finite 42)]"
proof -
  have m: "jsonMatch mixedTitlesText = Some mixedTitlesJson"
    by (simp add: mixedTitlesText_def mixedTitlesJson_def)
  have p: "JSON_parse (answering mixedTitlesText) mixedTitlesJson =
             Some (Arr [Str ''Dune'', Num (Finite 42)])"
    by (simp add: answering_def exampleParse_def mixedTitlesJson_def wrappedSentinelJson_def
                  bareSentinelJson_def oneTitleJson_def)
  have "extractBookTitles (answering mixedTitlesText) helloImage =
          titlesFromContent (answering mixedTitlesText) (Str mixedTitlesText)"
    by (rule extractBookTitles_output [OF modelOutput_answering])
  then show ?thesis
    using m p by (simp add: titlesFromContent_def parseJson_value andThen_def)
qed

text \<open>
  Claim C6. When the first JSON substring of the model output parses to the one-element
  array \<^verbatim>\<open>[{"title":"X"}]\<close> (here with any non-empty title in the place of \<^verbatim>\<open>X\<close>),
  \<open>scanBooks\<close> returns exactly one record, with that title, author "Unknown Author" and
  \<^verbatim>\<open>null\<close> for isbn, genre and pageCount. In general, when it
  parses to an array of objects, \<open>scanBooks\<close> returns one record per element, in order:
  an absent title or author becomes "Unknown Title" or "Unknown Author", an absent isbn
  or genre becomes \<^verbatim>\<open>null\<close>, the page count is taken from \<^verbatim>\<open>page_count\<close> or else from
  \<^verbatim>\<open>pageCount\<close> and is \<^verbatim>\<open>null\<close> when both are absent, and a truthy title, author, isbn
  or genre is carried over.
\<close>

theorem books_mapped_with_defaults:
  assumes "modelOutput w scanBooksRequest img = Inr (Str c)"
      and "jsonMatch c = Some s"
      and "JSON_parse w s = Some (Arr elems)"
  shows "(\<forall>x. elems = [Obj [(''title'', Str x)]] \<and> x \<noteq> [] \<longrightarrow>
            scanBooks w img =
              Inr [\<lparr> title = Str x, author = Str ''Unknown Author'',
                     isbn = Null, genre = Null, pageCount = Null \<rparr>]) \<and>
         ((\<forall>e \<in> set elems. \<exists>kvs. e = Obj kvs) \<longrightarrow>
            (\<exists>bs. scanBooks w img = Inr bs \<and> length bs = length elems \<and>
               (\<forall>i < length elems. \<forall>kvs. elems ! i = Obj kvs \<longrightarrow>
                  (map_of kvs ''title'' = None \<longrightarrow> title (bs ! i) = Str ''Unknown Title'') \<and>
                  (map_of kvs ''author'' = None \<longrightarrow> author (bs ! i) = Str ''Unknown Author'') \<and>
                  (map_of kvs ''isbn'' = None \<longrightarrow> isbn (bs ! i) = Null) \<and>
                  (map_of kvs ''genre'' = None \<longrightarrow> genre (bs ! i) = Null) \<and>
                  (map_of kvs ''page_count'' = None \<and> map_of kvs ''pageCount'' = None \<longrightarrow>
                     book.pageCount (bs ! i) = Null) \<and>
                  (\<forall>p. map_of kvs ''page_count'' = Some p \<and> truthy p \<longrightarrow>
                     book.pageCount (bs ! i) = p) \<and>
                  (\<forall>q. map_of kvs ''page_count'' = None \<and> map_of kvs ''pageCount'' = Some q \<and>
                       truthy q \<longrightarrow> book.pageCount (bs ! i) = q) \<and>
                  (\<forall>v. map_of kvs ''title'' = Some v \<and> truthy v \<longrightarrow> title (bs ! i) = v) \<and>
                  (\<forall>v. map_of kvs ''author'' = Some v \<and> truthy v \<longrightarrow> author (bs ! i) = v) \<and>
                  (\<forall>v. map_of kvs ''isbn'' = Some v \<and> truthy v \<longrightarrow> isbn (bs ! i) = v) \<and>
                  (\<forall>v. map_of kvs ''genre'' = Some v \<and> truthy v \<longrightarrow> genre (bs ! i) = v))))"
proof (intro conjI allI impI)
  fix x
  assume h: "elems = [Obj [(''title'', Str x)]] \<and> x \<noteq> []"
  then have "scanBooks w img = Inr (map bookOf elems)"
    by (intro scanBooks_records [OF assms]) auto
  with h show "scanBooks w img =
      Inr [\<lparr> title = Str x, author = Str ''Unknown Author'',
             isbn = Null, genre = Null, pageCount = Null \<rparr>]"
    by (simp add: bookOf_def orElse_def)
next
  assume objs: "\<forall>e \<in> set elems. \<exists>kvs. e = Obj kvs"
  then have r: "scanBooks w img = Inr (map bookOf elems)"
    by (intro scanBooks_records [OF assms]) auto
  show "\<exists>bs. scanBooks w img = Inr bs \<and> length bs = length elems \<and>
               (\<forall>i < length elems. \<forall>kvs. elems ! i = Obj kvs \<longrightarrow>
                  (map_of kvs ''title'' = None \<longrightarrow> title (bs ! i) = Str ''Unknown Title'') \<and>
                  (map_of kvs ''author'' = None \<longrightarrow> author (bs ! i) = Str ''Unknown Author'') \<and>
                  (map_of kvs ''isbn'' = None \<longrightarrow> isbn (bs ! i) = Null) \<and>
                  (map_of kvs ''genre'' = None \<longrightarrow> genre (bs ! i) = Null) \<and>
                  (map_of kvs ''page_count'' = None \<and> map_of kvs ''pageCount'' = None \<longrightarrow>
                     book.pageCount (bs ! i) = Null) \<and>
                  (\<forall>p. map_of kvs ''page_count'' = Some p \<and> truthy p \<longrightarrow>
                     book.pageCount (bs ! i) = p) \<and>
                  (\<forall>q. map_of kvs ''page_count'' = None \<and> map_of kvs ''pageCount'' = Some q \<and>
                       truthy q \<longrightarrow> book.pageCount (bs ! i) = q) \<and>
                  (\<forall>v. map_of kvs ''title'' = Some v \<and> truthy v \<longrightarrow> title (bs ! i) = v) \<and>
                  (\<forall>v. map_of kvs ''author'' = Some v \<and> truthy v \<longrightarrow> author (bs ! i) = v) \<and>
                  (\<forall>v. map_of kvs ''isbn'' = Some v \<and> truthy v \<longrightarrow> isbn (bs ! i) = v) \<and>
                  (\<forall>v. map_of kvs ''genre'' = Some v \<and> truthy v \<longrightarrow> genre (bs ! i) = v))"
    by (rule exI [of _ "map bookOf elems"]) (simp add: r bookOf_def orElse_def)
qed

text \<open>The array \<^verbatim>\<open>[{"title":"X"}]\<close> at the end of a sentence.\<close>

theorem books_mapped_with_defaults_witness:
  "modelOutput (answering oneTitleText) scanBooksRequest helloImage = Inr (Str oneTitleText) \<and>
   jsonMatch oneTitleText = Some oneTitleJson \<and>
   JSON_parse (answering oneTitleText) oneTitleJson = Some (Arr [Obj [(''title'', Str ''X'')]]) \<and>
   scanBooks (answering oneTitleText) helloImage =
     Inr [\<lparr> title = Str ''X'', author = Str ''Unknown Author'',
            isbn = Null, genre = Null, pageCount = Null \<rparr>]"
proof -
  have m: "jsonMatch oneTitleText = Some oneTitleJson"
    by (simp add: oneTitleText_def oneTitleJson_def)
  have p: "JSON_parse (answering oneTitleText) oneTitleJson = Some (Arr [Obj [(''title'', Str ''X'')]])"
    by (simp add: answering_def exampleParse_def oneTitleJson_def wrappedSentinelJson_def
                  bareSentinelJson_def)
  show ?thesis
    using books_mapped_with_defaults [OF modelOutput_answering m p, of helloImage] m p
    by (simp add: modelOutput_answering)
qed

text \<open>
  Claim C10, as the code has it. In \<open>scanBooks\<close> the test for an absent field is
  falsiness, not the absence of the key. For an array whose elements are neither \<^verbatim>\<open>null\<close> nor \<^verbatim>\<open>undefined\<close>, each
  record has the element's title when that is truthy and "Unknown Title" otherwise, and in
  the same way "Unknown Author", \<^verbatim>\<open>null\<close> for isbn and \<^verbatim>\<open>null\<close> for genre; its pageCount
  is \<^verbatim>\<open>page_count\<close> when truthy, else \<^verbatim>\<open>pageCount\<close> when truthy, else \<^verbatim>\<open>null\<close>. So an
  empty title or author gives the placeholder, an empty isbn or genre gives \<^verbatim>\<open>null\<close>,
  and a page count of 0 under one of the two names gives \<^verbatim>\<open>null\<close> although the key is
  present, when the other name is absent or falsy too. A \<^verbatim>\<open>page_count\<close> of 0 beside a
  truthy \<^verbatim>\<open>pageCount\<close> gives that \<^verbatim>\<open>pageCount\<close>, not \<^verbatim>\<open>null\<close>.
\<close>

theorem absence_test_is_falsiness:
  assumes "modelOutput w scanBooksRequest img = Inr (Str c)"
      and "jsonMatch c = Some s"
      and "JSON_parse w s = Some (Arr elems)"
      and "Null \<notin> set elems" and "Undefined \<notin> set elems"
  shows "\<exists>bs. scanBooks w img = Inr bs \<and> length bs = length elems \<and>
           (\<forall>i < length elems.
              title (bs ! i) =
                (if truthy (field (elems ! i) ''title'') then field (elems ! i) ''title''
                 else Str ''Unknown Title'') \<and>
              author (bs ! i) =
                (if truthy (field (elems ! i) ''author'') then field (elems ! i) ''author''
                 else Str ''Unknown Author'') \<and>
              isbn (bs ! i) =
                (if truthy (field (elems ! i) ''isbn'') then field (elems ! i) ''isbn'' else Null) \<and>
              genre (bs ! i) =
                (if truthy (field (elems ! i) ''genre'') then field (elems ! i) ''genre'' else Null) \<and>
              book.pageCount (bs ! i) =
                (if truthy (field (elems ! i) ''page_count'') then field (elems ! i) ''page_count''
                 else if truthy (field (elems ! i) ''pageCount'') then field (elems ! i) ''pageCount''
                 else Null) \<and>
              (field (elems ! i) ''title'' = Str [] \<longrightarrow> title (bs ! i) = Str ''Unknown Title'') \<and>
              (field (elems ! i) ''author'' = Str [] \<longrightarrow> author (bs ! i) = Str ''Unknown Author'') \<and>
              (field (elems ! i) ''isbn'' = Str [] \<longrightarrow> isbn (bs ! i) = Null) \<and>
              (field (elems ! i) ''genre'' = Str [] \<longrightarrow> genre (bs ! i) = Null) \<and>
              (field (elems ! i) ''page_count'' = Num (Finite 0) \<and>
               \<not> truthy (field (elems ! i) ''pageCount'') \<longrightarrow> book.pageCount (bs ! i) = Null) \<and>
              (\<not> truthy (field (elems ! i) ''page_count'') \<and>
               field (elems ! i) ''pageCount'' = Num (Finite 0) \<longrightarrow> book.pageCount (bs ! i) = Null) \<and>
              (field (elems ! i) ''page_count'' = Num (Finite 0) \<and>
               truthy (field (elems ! i) ''pageCount'') \<longrightarrow>
                 book.pageCount (bs ! i) = field (elems ! i) ''pageCount''))"
proof -
  have "scanBooks w img = Inr (map bookOf elems)"
    by (rule scanBooks_records [OF assms])
  then show ?thesis
    by (intro exI [of _ "map bookOf elems"]) (simp add: bookOf_def orElse_def)
qed

text \<open>
  Two elements: one with empty strings for title, author, isbn and genre and with
  \<^verbatim>\<open>page_count\<close> 0, one with a title and \<^verbatim>\<open>pageCount\<close> 0.
\<close>

theorem absence_test_is_falsiness_witness:
  "modelOutput (answering falsyFieldsJson) scanBooksRequest helloImage = Inr (Str falsyFieldsJson) \<and>
   jsonMatch falsyFieldsJson = Some falsyFieldsJson \<and>
   JSON_parse (answering falsyFieldsJson) falsyFieldsJson =
     Some (Arr [Obj [(''title'', Str []), (''author'', Str []), (''isbn'', Str []),
                     (''genre'', Str []), (''page_count'', Num (Finite 0))],
                Obj [(''title'', Str ''Emma''), (''pageCount'', Num (Finite 0))]]) \<and>
   scanBooks (answering falsyFieldsJson) helloImage =
     Inr [\<lparr> title = Str ''Unknown Title'', author = Str ''Unknown Author'',
            isbn = Null, genre = Null, pageCount = Null \<rparr>,
          \<lparr> title = Str ''Emma'', author = Str ''Unknown Author'',
            isbn = Null, genre = Null, pageCount = Null \<rparr>]"
proof -
  let ?elems = "[Obj [(''title'', Str []), (''author'', Str []), (''isbn'', Str []),
                      (''genre'', Str []), (''page_count'', Num (Finite 0))],
                 Obj [(''title'', Str ''Emma''), (''pageCount'', Num (Finite 0))]]"
  have m: "jsonMatch falsyFieldsJson = Some falsyFieldsJson"
    by (simp add: falsyFieldsJson_def)
  have p: "JSON_parse (answering falsyFieldsJson) falsyFieldsJson = Some (Arr ?elems)"
    by (simp add: answering_def exampleParse_def falsyFieldsJson_def wrappedSentinelJson_def
                  bareSentinelJson_def oneTitleJson_def mixedTitlesJson_def)
  have n: "Null \<notin> set ?elems" "Undefined \<notin> set ?elems"
    by simp_all
  obtain bs where r: "scanBooks (answering falsyFieldsJson) helloImage = Inr bs"
      and l: "length bs = length ?elems"
      and b0: "title (bs ! 0) = Str ''Unknown Title''" "author (bs ! 0) = Str ''Unknown Author''"
              "isbn (bs ! 0) = Null" "genre (bs ! 0) = Null" "book.pageCount (bs ! 0) = Null"
      and b1: "title (bs ! 1) = Str ''Emma''" "author (bs ! 1) = Str ''Unknown Author''"
              "isbn (bs ! 1) = Null" "genre (bs ! 1) = Null" "book.pageCount (bs ! 1) = Null"
    using absence_test_is_falsiness [OF modelOutput_answering m p n, of helloImage]
    by (auto simp: All_less_Suc)
  from l obtain x y where bs: "bs = [x, y]"
    by (cases bs; cases "tl bs"; cases "tl (tl bs)") auto
  from b0 b1 have "x = \<lparr> title = Str ''Unknown Title'', author = Str ''Unknown Author'',
                          isbn = Null, genre = Null, pageCount = Null \<rparr>"
    and "y = \<lparr> title = Str ''Emma'', author = Str ''Unknown Author'',
                isbn = Null, genre = Null, pageCount = Null \<rparr>"
    unfolding bs by (cases x; simp)+
  with r bs m p show ?thesis
    by (simp add: modelOutput_answering)
qed

text \<open>
  The claim as stated fails on an element with \<^verbatim>\<open>page_count\<close> 0 and \<^verbatim>\<open>pageCount\<close> 320:
  its page count is 320, not \<^verbatim>\<open>null\<close>.
\<close>

theorem zero_page_count_counterexample:
  "jsonMatch bothPageCountsText = Some bothPageCountsJson \<and>
   JSON_parse (answering bothPageCountsText) bothPageCountsJson =
     Some (Arr [Obj [(''title'', Str ''Emma''), (''page_count'', Num (Finite 0)),
                     (''pageCount'', Num (Finite 320))]]) \<and>
   scanBooks (answering bothPageCountsText) helloImage =
     Inr [\<lparr> title = Str ''Emma'', author = Str ''Unknown Author'',
            isbn = Null, genre = Null, pageCount = Num (Finite 320) \<rparr>] \<and>
   Num (Finite 320) \<noteq> Null"
proof -
  have m: "jsonMatch bothPageCountsText = Some bothPageCountsJson"
    by (simp add: bothPageCountsText_def bothPageCountsJson_def)
  have p: "JSON_parse (answering bothPageCountsText) bothPageCountsJson =
             Some (Arr [Obj [(''title'', Str ''Emma''), (''page_count'', Num (Finite 0)),
                             (''pageCount'', Num (Finite 320))]])"
    by (simp add: answering_def exampleParse_def bothPageCountsJson_def wrappedSentinelJson_def
                  bareSentinelJson_def oneTitleJson_def mixedTitlesJson_def falsyFieldsJson_def
                  threeTitlesJson_def)
  have "scanBooks (answering bothPageCountsText) helloImage =
          Inr (map bookOf [Obj [(''title'', Str ''Emma''), (''page_count'', Num (Finite 0)),
                                (''pageCount'', Num (Finite 320))]])"
    by (rule scanBooks_records [OF modelOutput_answering m p]) simp_all
  then show ?thesis
    using m p by (simp add: bookOf_def orElse_def)
qed

section \<open>The Metadata Enricher\<close>

lemma searchBookByTitle_returns:
  "convertible t \<Longrightarrow> \<exists>r. searchBookByTitle w t = Inr r \<and> titleOf r = t"
  by (auto simp: searchBookByTitle_def interpolate_def try_catch_def andThen_def Let_def
           split: sum.splits if_splits)

text \<open>A title that cannot be converted to a string makes the lookup reject.\<close>

lemma searchBookByTitle_rejects:
  "\<not> convertible t \<Longrightarrow> searchBookByTitle w t = Inl TypeError"
  by (simp add: searchBookByTitle_def interpolate_def try_catch_def andThen_def)

lemma Promise_all_map:
  assumes "\<And>x. x \<in> set xs \<Longrightarrow> \<exists>y. f x = Inr y \<and> g y = x"
  shows "\<exists>ys. Promise_all (map f xs) = Inr ys \<and> map g ys = xs"
  using assms
proof (induction xs)
  case Nil
  then show ?case by (simp add: Promise_all_def)
next
  case (Cons x xs)
  then obtain ys where ys: "Promise_all (map f xs) = Inr ys" "map g ys = xs"
    by (meson list.set_intros(2))
  from Cons.prems obtain y where y: "f x = Inr y" "g y = x"
    by (meson list.set_intros(1))
  from ys y have "Promise_all (map f (x # xs)) = Inr (y # ys) \<and> map g (y # ys) = x # xs"
    by (simp add: Promise_all_def andThen_def)
  then show ?case by (rule exI [of _ "y # ys"])
qed

lemma enrichTitles_convertible:
  assumes "\<forall>t \<in> set titles. convertible t"
  shows "\<exists>rs. enrichTitles w titles = Inr rs \<and> map titleOf rs = titles"
  unfolding enrichTitles_def
  using assms by (intro Promise_all_map searchBookByTitle_returns) simp

text \<open>
  Claim C1. For every list of title strings given to the Metadata Enricher, whatever the
  book API does for each of them (a match, no match, or a failure), the lookups joined by
  \<^verbatim>\<open>Promise.all\<close> give a result list of the same length, and the title of the i-th result
  is the i-th title given. So when the extracted titles are strings, the handler answers
  with one record for each of them, in the order of extraction.
\<close>

theorem enrichment_keeps_titles:
  assumes "\<forall>t \<in> set titles. \<exists>s. t = Str s"
  shows "(\<exists>rs. enrichTitles w titles = Inr rs \<and> length rs = length titles \<and>
            (\<forall>i < length titles. titleOf (rs ! i) = titles ! i)) \<and>
         (extractBookTitles w img = Inr titles \<longrightarrow>
            (\<exists>rs. extractBookTitlesHandler w img = Inr rs \<and> length rs = length titles \<and>
               (\<forall>i < length titles. titleOf (rs ! i) = titles ! i)))"
proof -
  from assms have "\<forall>t \<in> set titles. convertible t"
    by auto
  then obtain rs where rs: "enrichTitles w titles = Inr rs" "map titleOf rs = titles"
    using enrichTitles_convertible by blast
  from rs(2) have "length rs = length titles"
    by (metis length_map)
  moreover from rs(2) have "\<forall>i < length titles. titleOf (rs ! i) = titles ! i"
    by (metis length_map nth_map)
  ultimately have e: "\<exists>rs. enrichTitles w titles = Inr rs \<and> length rs = length titles \<and>
         (\<forall>i < length titles. titleOf (rs ! i) = titles ! i)"
    using rs(1) by blast
  then show ?thesis
    by (simp add: extractBookTitlesHandler_def andThen_Inr)
qed

lemma search_dune:
  "searchBookByTitle (answering c) (Str ''Dune'') = Inr (Found (Str ''Dune'') duneRecord)"
  by (simp add: searchBookByTitle_def interpolate_def answering_def exampleCatalog_def duneReply_def
                duneRecord_def try_catch_def andThen_def readProp_def orElse_def
                findIdentifier_def hasType_def optionalProp_def shorten_def Let_def)

lemma search_emma:
  "searchBookByTitle (answering c) (Str ''Emma'') = Inr (NotFound (Str ''Emma''))"
  by (simp add: searchBookByTitle_def interpolate_def answering_def exampleCatalog_def
                try_catch_def andThen_def readProp_def)

lemma search_unknown:
  "searchBookByTitle (answering c) (Str ''Zorba'') = Inr (LookupFailed (Str ''Zorba'') serviceUnavailable)"
  by (simp add: searchBookByTitle_def interpolate_def answering_def exampleCatalog_def
                try_catch_def andThen_def)

text \<open>
  Three titles read from an image: the first has a match, the second has none, and the
  lookup of the third fails.
\<close>

theorem enrichment_keeps_titles_witness:
  "extractBookTitles (answering threeTitlesText) helloImage =
     Inr [Str ''Dune'', Str ''Emma'', Str ''Zorba''] \<and>
   enrichTitles (answering threeTitlesText) [Str ''Dune'', Str ''Emma'', Str ''Zorba''] =
     Inr [Found (Str ''Dune'') duneRecord,
          NotFound (Str ''Emma''),
          LookupFailed (Str ''Zorba'') serviceUnavailable] \<and>
   extractBookTitlesHandler (answering threeTitlesText) helloImage =
     Inr [Found (Str ''Dune'') duneRecord,
          NotFound (Str ''Emma''),
          LookupFailed (Str ''Zorba'') serviceUnavailable] \<and>
   map titleOf [Found (Str ''Dune'') duneRecord,
                NotFound (Str ''Emma''),
                LookupFailed (Str ''Zorba'') serviceUnavailable] =
     [Str ''Dune'', Str ''Emma'', Str ''Zorba''] \<and>
   map foundOf [Found (Str ''Dune'') duneRecord,
                NotFound (Str ''Emma''),
                LookupFailed (Str ''Zorba'') serviceUnavailable] =
     [True, False, False]"
proof -
  have m: "jsonMatch threeTitlesText = Some threeTitlesJson"
    by (simp add: threeTitlesText_def threeTitlesJson_def)
  have p: "JSON_parse (answering threeTitlesText) threeTitlesJson =
             Some (Arr [Str ''Dune'', Str ''Emma'', Str ''Zorba''])"
    by (simp add: answering_def exampleParse_def threeTitlesJson_def wrappedSentinelJson_def
                  bareSentinelJson_def oneTitleJson_def mixedTitlesJson_def falsyFieldsJson_def)
  have "extractBookTitles (answering threeTitlesText) helloImage =
          titlesFromContent (answering threeTitlesText) (Str threeTitlesText)"
    by (rule extractBookTitles_output [OF modelOutput_answering])
  with m p have t: "extractBookTitles (answering threeTitlesText) helloImage =
      Inr [Str ''Dune'', Str ''Emma'', Str ''Zorba'']"
    by (simp add: titlesFromContent_def parseJson_value andThen_def)
  have e: "enrichTitles (answering threeTitlesText) [Str ''Dune'', Str ''Emma'', Str ''Zorba''] =
     Inr [Found (Str ''Dune'') duneRecord,
          NotFound (Str ''Emma''),
          LookupFailed (Str ''Zorba'') serviceUnavailable]"
    by (simp add: enrichTitles_def Promise_all_def andThen_def search_dune search_emma
                  search_unknown)
  have h: "\<forall>t \<in> set [Str ''Dune'', Str ''Emma'', Str ''Zorba'']. \<exists>s. t = Str s"
    by simp
  show ?thesis
    using enrichment_keeps_titles [OF h, of "answering threeTitlesText" helloImage] t e
    by (simp add: extractBookTitlesHandler_def andThen_Inr)
qed

text \<open>
  The handler on titles that are not all strings: \<open>extractBookTitles\<close> passes the object
  through, its lookup rejects, and so does the handler.
\<close>

lemma odd_titles_rejected:
  "extractBookTitles (answering oddTitlesText) helloImage =
     Inr [Str ''Dune'', Obj [(''toString'', Num (Finite 1))]] \<and>
   extractBookTitlesHandler (answering oddTitlesText) helloImage = Inl TypeError"
proof -
  have m: "jsonMatch oddTitlesText = Some oddTitlesJson"
    by (simp add: oddTitlesText_def oddTitlesJson_def)
  have p: "JSON_parse (answering oddTitlesText) oddTitlesJson =
             Some (Arr [Str ''Dune'', Obj [(''toString'', Num (Finite 1))]])"
    by (simp add: answering_def exampleParse_def oddTitlesJson_def wrappedSentinelJson_def
                  bareSentinelJson_def oneTitleJson_def mixedTitlesJson_def falsyFieldsJson_def
                  threeTitlesJson_def bothPageCountsJson_def)
  have "extractBookTitles (answering oddTitlesText) helloImage =
          titlesFromContent (answering oddTitlesText) (Str oddTitlesText)"
    by (rule extractBookTitles_output [OF modelOutput_answering])
  with m p have t: "extractBookTitles (answering oddTitlesText) helloImage =
      Inr [Str ''Dune'', Obj [(''toString'', Num (Finite 1))]]"
    by (simp add: titlesFromContent_def parseJson_value andThen_def)
  then show ?thesis
    by (simp add: extractBookTitlesHandler_def enrichTitles_def Promise_all_def andThen_def
                  search_dune searchBookByTitle_rejects)
qed

lemma findE_find:
  "findE (hasType ty) xs = Inr hit \<Longrightarrow> hit = find (\<lambda>x. field x ''type'' = Str ty) xs"
  by (induction xs)
     (auto simp: hasType_def readProp_def andThen_def split: if_splits)

lemma andThen_eq_Inr: "andThen m f = Inr r \<longleftrightarrow> (\<exists>v. m = Inr v \<and> f v = Inr r)"
  by (cases m) (simp_all add: andThen_def)

lemma find_Some_holds: "find P xs = Some x \<Longrightarrow> P x"
  by (induction xs) (auto split: if_splits)

lemma findIdentifier_value:
  assumes "findIdentifier ty ids = Inr r"
  shows "\<exists>xs. ids = Arr xs \<and> r = firstIdentifier ty xs"
proof (cases ids)
  case (Arr xs)
  with assms have "andThen (findE (hasType ty) xs) (\<lambda>hit.
      Inr (optionalProp (case hit of None \<Rightarrow> Undefined | Some x \<Rightarrow> x) ''identifier'')) = Inr r"
    by (simp add: findIdentifier_def)
  then obtain hit where f: "findE (hasType ty) xs = Inr hit"
      and r: "r = optionalProp (case hit of None \<Rightarrow> Undefined | Some x \<Rightarrow> x) ''identifier''"
    unfolding andThen_eq_Inr by auto
  from f have h: "hit = find (\<lambda>x. field x ''type'' = Str ty) xs"
    by (rule findE_find)
  have "r = firstIdentifier ty xs"
  proof (cases hit)
    case None
    with r h show ?thesis
      by (simp add: firstIdentifier_def optionalProp_def)
  next
    case (Some x)
    with h have fx: "find (\<lambda>x. field x ''type'' = Str ty) xs = Some x"
      by simp
    then have "field x ''type'' = Str ty"
      by (rule find_Some_holds)
    then have "x \<noteq> Undefined" and "x \<noteq> Null"
      by auto
    with r Some fx show ?thesis
      by (simp add: firstIdentifier_def optionalProp_def)
  qed
  with Arr show ?thesis by simp
qed (use assms in \<open>simp_all add: findIdentifier_def\<close>)

lemma try_catch_Found:
  "try_catch body (\<lambda>e. andThen (interpolate t) (\<lambda>logged. Inr (LookupFailed t e))) =
     Inr (Found t' v) \<Longrightarrow> body = Inr (Found t' v)"
  by (cases body) (auto simp: try_catch_def andThen_def split: sum.splits)

lemma readProp_eq_Inr: "readProp x k = Inr r \<longleftrightarrow> x \<noteq> Undefined \<and> x \<noteq> Null \<and> r = field x k"
  by (auto simp: readProp_def)

lemma found_parts:
  assumes "axios_get w t = Inr data"
      and "searchBookByTitle w t = Inr (Found t' v)"
  shows "findIdentifier ''ISBN_10''
           (orElse (field (volumeInfoOf data) ''industryIdentifiers'') (Arr [])) = Inr (isbn10 v)"
    and "findIdentifier ''ISBN_13''
           (orElse (field (volumeInfoOf data) ''industryIdentifiers'') (Arr [])) = Inr (isbn13 v)"
    and "shorten (field (volumeInfoOf data) ''description'') = Inr (description v)"
proof -
  from assms(2) have
    "\<exists>b. first (field data ''items'') = Inr b \<and> b \<noteq> Undefined \<and> b \<noteq> Null \<and>
       findIdentifier ''ISBN_10''
         (orElse (field (orElse (field b ''volumeInfo'') (Obj [])) ''industryIdentifiers'') (Arr []))
         = Inr (isbn10 v) \<and>
       findIdentifier ''ISBN_13''
         (orElse (field (orElse (field b ''volumeInfo'') (Obj [])) ''industryIdentifiers'') (Arr []))
         = Inr (isbn13 v) \<and>
       shorten (field (orElse (field b ''volumeInfo'') (Obj [])) ''description'')
         = Inr (description v)"
    unfolding searchBookByTitle_def assms(1) andThen_Inr
    by (auto dest!: try_catch_Found simp: andThen_eq_Inr readProp_eq_Inr Let_def split: if_splits)
  then show
    "findIdentifier ''ISBN_10''
           (orElse (field (volumeInfoOf data) ''industryIdentifiers'') (Arr [])) = Inr (isbn10 v)"
    "findIdentifier ''ISBN_13''
           (orElse (field (volumeInfoOf data) ''industryIdentifiers'') (Arr [])) = Inr (isbn13 v)"
    "shorten (field (volumeInfoOf data) ''description'') = Inr (description v)"
    by (auto simp: volumeInfoOf_def)
qed

lemma identifiers_of_found:
  assumes "findIdentifier ty (orElse (field vi ''industryIdentifiers'') (Arr [])) = Inr r"
  shows "r = firstIdentifier ty (identifierList vi)"
proof -
  from assms obtain xs where x: "orElse (field vi ''industryIdentifiers'') (Arr []) = Arr xs"
      and r: "r = firstIdentifier ty xs"
    using findIdentifier_value by blast
  from x have "identifierList vi = xs"
    by (cases "field vi ''industryIdentifiers''")
       (auto simp: orElse_def identifierList_def split: if_splits)
  with r show ?thesis by simp
qed

lemma get_answering: "axios_get (answering c) = exampleCatalog"
  by (simp add: answering_def)

lemma search_long:
  "searchBookByTitle (answering c) (Str ''Long'') = Inr (Found (Str ''Long'') longRecord)"
  by (simp add: searchBookByTitle_def interpolate_def get_answering exampleCatalog_def longReply_def
                longRecord_def try_catch_def andThen_def readProp_def orElse_def
                findIdentifier_def optionalProp_def shorten_def Let_def)

lemma search_blank:
  "searchBookByTitle (answering c) (Str ''Blank'') = Inr (Found (Str ''Blank'') blankRecord)"
  by (simp add: searchBookByTitle_def interpolate_def get_answering exampleCatalog_def emptyDescriptionReply_def
                blankRecord_def try_catch_def andThen_def readProp_def orElse_def
                findIdentifier_def optionalProp_def shorten_def Let_def)

lemma search_ulysses:
  "searchBookByTitle (answering c) (Str ''Ulysses'') = Inr (Found (Str ''Ulysses'') ulyssesRecord)"
  by (simp add: searchBookByTitle_def interpolate_def get_answering exampleCatalog_def ulyssesReply_def
                ulyssesRecord_def try_catch_def andThen_def readProp_def orElse_def
                findIdentifier_def hasType_def optionalProp_def shorten_def Let_def)

text \<open>
  Claim C8, as the code has it. For every found match whose description is a non-empty
  string \<open>d\<close>, the description of the record is \<open>d\<close> when \<open>d\<close> has at most 200 characters,
  and otherwise the first 200 characters of \<open>d\<close> followed by the marker "...": it is at
  most 203 characters long, not 200. When the match has no description, or an empty one,
  the field is \<^verbatim>\<open>null\<close>.
\<close>

theorem description_shortened:
  assumes "axios_get w t = Inr data"
      and "searchBookByTitle w t = Inr (Found t' v)"
  shows "(\<forall>d. field (volumeInfoOf data) ''description'' = Str d \<and> d \<noteq> [] \<longrightarrow>
            description v = Str (if length d \<le> 200 then d else take 200 d @ ''...'') \<and>
            length (if length d \<le> 200 then d else take 200 d @ ''...'') \<le> 203) \<and>
         (field (volumeInfoOf data) ''description'' = Undefined \<longrightarrow> description v = Null) \<and>
         (field (volumeInfoOf data) ''description'' = Str [] \<longrightarrow> description v = Null)"
  using found_parts(3) [OF assms]
  by (auto simp: shorten_def)

text \<open>A short description is kept, one of 201 characters is cut to 200 and marked.\<close>

theorem description_shortened_witness:
  "axios_get (answering proseText) (Str ''Dune'') = Inr duneReply \<and>
   searchBookByTitle (answering proseText) (Str ''Dune'') = Inr (Found (Str ''Dune'') duneRecord) \<and>
   field (volumeInfoOf duneReply) ''description'' = Str ''A desert planet.'' \<and>
   description duneRecord = Str ''A desert planet.'' \<and>
   axios_get (answering proseText) (Str ''Long'') = Inr longReply \<and>
   searchBookByTitle (answering proseText) (Str ''Long'') = Inr (Found (Str ''Long'') longRecord) \<and>
   field (volumeInfoOf longReply) ''description'' = Str (replicate 201 CHR ''a'') \<and>
   description longRecord = Str (replicate 200 CHR ''a'' @ ''...'')"
proof -
  have g1: "axios_get (answering proseText) (Str ''Dune'') = Inr duneReply"
    by (simp add: get_answering exampleCatalog_def)
  have g2: "axios_get (answering proseText) (Str ''Long'') = Inr longReply"
    by (simp add: get_answering exampleCatalog_def)
  have d1: "field (volumeInfoOf duneReply) ''description'' = Str ''A desert planet.''"
    by (simp add: volumeInfoOf_def duneReply_def orElse_def)
  have d2: "field (volumeInfoOf longReply) ''description'' = Str (replicate 201 CHR ''a'')"
    by (simp add: volumeInfoOf_def longReply_def orElse_def)
  have "description duneRecord = Str ''A desert planet.''"
    using description_shortened [OF g1 search_dune] d1 by simp
  moreover have "description longRecord = Str (replicate 200 CHR ''a'' @ ''...'')"
    using description_shortened [OF g2 search_long] d2 by simp
  ultimately show ?thesis
    using g1 g2 d1 d2 by (simp add: search_dune search_long)
qed

text \<open>
  The claim as stated fails in two places. A description of 201 characters gives a field
  of 203 characters, and a description that is present but empty gives \<^verbatim>\<open>null\<close>, not the
  empty string.
\<close>

theorem long_description_counterexample:
  "searchBookByTitle (answering proseText) (Str ''Long'') = Inr (Found (Str ''Long'') longRecord) \<and>
   field (volumeInfoOf longReply) ''description'' = Str (replicate 201 CHR ''a'') \<and>
   description longRecord = Str (replicate 200 CHR ''a'' @ ''...'') \<and>
   length (replicate 200 CHR ''a'' @ ''...'') = 203 \<and>
   searchBookByTitle (answering proseText) (Str ''Blank'') = Inr (Found (Str ''Blank'') blankRecord) \<and>
   field (volumeInfoOf emptyDescriptionReply) ''description'' = Str [] \<and>
   description blankRecord = Null"
  by (simp add: search_long search_blank volumeInfoOf_def longReply_def emptyDescriptionReply_def
                orElse_def longRecord_def blankRecord_def)

text \<open>
  Claim C9, as the code has it. For every found match, \<^verbatim>\<open>isbn10\<close> is the identifier of the
  first entry of the match's identifier list whose type is "ISBN_10", and \<^verbatim>\<open>isbn13\<close> that
  of the first entry whose type is "ISBN_13". When no entry of the type exists (also when
  the match has no identifier list) the field is \<^verbatim>\<open>undefined\<close>, not \<^verbatim>\<open>null\<close>.
\<close>

theorem isbn_of_first_entry:
  assumes "axios_get w t = Inr data"
      and "searchBookByTitle w t = Inr (Found t' v)"
  shows "isbn10 v = firstIdentifier ''ISBN_10'' (identifierList (volumeInfoOf data)) \<and>
         isbn13 v = firstIdentifier ''ISBN_13'' (identifierList (volumeInfoOf data)) \<and>
         ((\<forall>x \<in> set (identifierList (volumeInfoOf data)). field x ''type'' \<noteq> Str ''ISBN_10'')
            \<longrightarrow> isbn10 v = Undefined) \<and>
         ((\<forall>x \<in> set (identifierList (volumeInfoOf data)). field x ''type'' \<noteq> Str ''ISBN_13'')
            \<longrightarrow> isbn13 v = Undefined)"
proof -
  have a: "isbn10 v = firstIdentifier ''ISBN_10'' (identifierList (volumeInfoOf data))"
    using found_parts(1) [OF assms] by (rule identifiers_of_found)
  have b: "isbn13 v = firstIdentifier ''ISBN_13'' (identifierList (volumeInfoOf data))"
    using found_parts(2) [OF assms] by (rule identifiers_of_found)
  have n: "\<And>ty xs. (\<forall>x \<in> set xs. field x ''type'' \<noteq> Str ty) \<Longrightarrow> firstIdentifier ty xs = Undefined"
    by (simp add: firstIdentifier_def find_None_iff [THEN iffD2])
  from a b n show ?thesis
    by simp
qed

text \<open>
  Of two entries of type "ISBN_10" the first one is taken, and the entry of type
  "ISBN_13" is found before them.
\<close>

theorem isbn_of_first_entry_witness:
  "axios_get (answering proseText) (Str ''Dune'') = Inr duneReply \<and>
   searchBookByTitle (answering proseText) (Str ''Dune'') = Inr (Found (Str ''Dune'') duneRecord) \<and>
   identifierList (volumeInfoOf duneReply) =
     [Obj [(''type'', Str ''ISBN_13''), (''identifier'', Str ''9780441172719'')],
      Obj [(''type'', Str ''ISBN_10''), (''identifier'', Str ''0441172717'')],
      Obj [(''type'', Str ''ISBN_10''), (''identifier'', Str ''0000000000'')]] \<and>
   isbn10 duneRecord = Str ''0441172717'' \<and>
   isbn13 duneRecord = Str ''9780441172719''"
proof -
  have g: "axios_get (answering proseText) (Str ''Dune'') = Inr duneReply"
    by (simp add: get_answering exampleCatalog_def)
  have l: "identifierList (volumeInfoOf duneReply) =
     [Obj [(''type'', Str ''ISBN_13''), (''identifier'', Str ''9780441172719'')],
      Obj [(''type'', Str ''ISBN_10''), (''identifier'', Str ''0441172717'')],
      Obj [(''type'', Str ''ISBN_10''), (''identifier'', Str ''0000000000'')]]"
    by (simp add: identifierList_def volumeInfoOf_def duneReply_def orElse_def)
  have "isbn10 duneRecord = Str ''0441172717'' \<and> isbn13 duneRecord = Str ''9780441172719''"
    using isbn_of_first_entry [OF g search_dune]
    by (simp add: l firstIdentifier_def)
  with g l show ?thesis
    by (simp add: search_dune)
qed

text \<open>
  The claim as stated fails on a match without an entry of type "ISBN_10": the field is
  \<^verbatim>\<open>undefined\<close>, so it is left out when the record is serialised, where \<^verbatim>\<open>null\<close> would
  be written.
\<close>

theorem missing_isbn_counterexample:
  "searchBookByTitle (answering proseText) (Str ''Ulysses'') =
     Inr (Found (Str ''Ulysses'') ulyssesRecord) \<and>
   identifierList (volumeInfoOf ulyssesReply) =
     [Obj [(''type'', Str ''OTHER''), (''identifier'', Str ''OCLC:1234'')],
      Obj [(''type'', Str ''ISBN_13''), (''identifier'', Str ''9780199535675'')]] \<and>
   isbn10 ulyssesRecord = Undefined \<and>
   isbn10 ulyssesRecord \<noteq> Null"
  by (simp add: search_ulysses identifierList_def volumeInfoOf_def ulyssesReply_def orElse_def
                ulyssesRecord_def)

end
